theory Spec2Isabelle
  imports Main "HOL-Library.AList" "HOL-Library.Char_ord" "HOL-Library.List_Lexorder"
begin

section \<open>Data model\<close>

text \<open>
  Python strings are modelled as \<^typ>\<open>string\<close>, read as the UTF-8 bytes of the text. The
  lexicographic order on byte lists (\<open>List_Lexorder\<close> over \<open>Char_ord\<close>) then agrees with
  Python's order on \<open>str\<close> (by code point), and \<open>startswith("$")\<close> looks at one ASCII byte.
\<close>

text \<open>
  The exceptions that \<open>main.py\<close> and the library calls it makes can raise. Every
  \<open>raise ValueError(msg)\<close> of the source keeps its message, so that the failure of the
  style model can be told from the failure of the XML accessors. \<open>OSError\<close> is what
  \<open>open\<close> raises on a path it cannot open, for reading or for writing
  (\<open>FileNotFoundError\<close>, \<open>PermissionError\<close> and the other subclasses). \<open>Unmodelled\<close> stands for a
  configuration value outside the field annotations of \<open>Style\<close> (\<open>list[str]\<close>,
  \<open>str | None\<close>): Python does not check them, and what the code does on such values is
  left out of this model.
\<close>

datatype error =
    ValueError string
  | AttributeError
  | TypeError
  | OSError
  | YAMLError
  | ParseError
  | Unmodelled

subsection \<open>The dataclass \<open>Style\<close>\<close>

record Style =
  names :: "string list"
  fgColor :: "string option"
  bgColor :: "string option"

text \<open>\<open>str.startswith\<close>.\<close>

definition startswith :: "string \<Rightarrow> string \<Rightarrow> bool" where
  "startswith s p = (take (length p) s = p)"

text \<open>Truth value of an \<open>str | None\<close>: \<open>None\<close> and the empty string are false.\<close>

definition truthy :: "string option \<Rightarrow> bool" where
  "truthy c = (case c of None \<Rightarrow> False | Some s \<Rightarrow> s \<noteq> [])"

text \<open>
  \<open>Style(names, fgColor, bgColor)\<close>: the generated \<open>__init__\<close> stores the three fields and
  calls \<open>__post_init__\<close>, whose four checks and final \<open>sorted(set(self.names))\<close> follow in
  the order of the source.
\<close>

definition Style_init :: "string list \<Rightarrow> string option \<Rightarrow> string option \<Rightarrow> error + Style" where
  "Style_init ns fg bg =
     (if ns = [] then Inl (ValueError ''names list cannot be empty'')
      else if fg = None \<and> bg = None then
        Inl (ValueError ''At least one of fgColor or bgColor must be provided'')
      else if truthy fg \<and> \<not> startswith (the fg) ''$'' then
        Inl (ValueError ''fgColor must start with '$' if provided'')
      else if truthy bg \<and> \<not> startswith (the bg) ''$'' then
        Inl (ValueError ''bgColor must start with '$' if provided'')
      else Inr \<lparr>names = sorted_list_of_set (set ns), fgColor = fg, bgColor = bg\<rparr>)"

text \<open>The spec's \<open>ValidationError\<close>: one of the four \<open>ValueError\<close>s of \<open>__post_init__\<close>.\<close>

definition ValidationError :: "error \<Rightarrow> bool" where
  "ValidationError e =
     (e = ValueError ''names list cannot be empty'' \<or>
      e = ValueError ''At least one of fgColor or bgColor must be provided'' \<or>
      e = ValueError ''fgColor must start with '$' if provided'' \<or>
      e = ValueError ''bgColor must start with '$' if provided'')"

subsection \<open>XML elements\<close>

text \<open>
  An \<open>ElementTree.Element\<close>: its tag, its attribute dictionary (insertion-ordered, hence an
  association list) and its children. Text and tail are never read or written by
  \<open>main.py\<close> and are left out.
\<close>

datatype element = Element (tag: string) (attrib: "(string \<times> string) list") (children: "element list")

text \<open>\<open>Element.get(key)\<close> and \<open>Element.set(key, value)\<close>.\<close>

definition elem_get :: "element \<Rightarrow> string \<Rightarrow> string option" where
  "elem_get e k = map_of (attrib e) k"

definition elem_set :: "element \<Rightarrow> string \<Rightarrow> string \<Rightarrow> element" where
  "elem_set e k v = Element (tag e) (AList.update k v (attrib e)) (children e)"

text \<open>\<open>Element.find(tag)\<close> and \<open>Element.findall(tag)\<close> with a plain tag as path: direct children.\<close>

definition elem_find :: "element \<Rightarrow> string \<Rightarrow> element option" where
  "elem_find e t = List.find (\<lambda>c. tag c = t) (children e)"

definition elem_findall :: "element \<Rightarrow> string \<Rightarrow> element list" where
  "elem_findall e t = filter (\<lambda>c. tag c = t) (children e)"

section \<open>Color updater\<close>

text \<open>
  \<open>update_fg_bg_color\<close> mutates the element in place and returns it; the model returns the
  new element. The \<open>else\<close> branch only calls \<open>logger.warning\<close>, which neither touches the
  element nor raises, so it returns the element as it is.
\<close>

definition update_fg_bg_color ::
  "element \<Rightarrow> string \<Rightarrow> string option \<Rightarrow> string option \<Rightarrow> element" where
  "update_fg_bg_color element style_name new_fg_color new_bg_color =
     (if elem_get element ''name'' = Some style_name then
        (let e1 = (case new_fg_color of None \<Rightarrow> element | Some c \<Rightarrow> elem_set element ''fgColor'' c)
         in (case new_bg_color of None \<Rightarrow> e1 | Some c \<Rightarrow> elem_set e1 ''bgColor'' c))
      else element)"

section \<open>Configuration file\<close>

text \<open>
  What \<open>yaml.safe_load\<close> returns: the parsed document. Mapping keys are strings here (the
  code only looks up the keys \<open>styles\<close>, \<open>names\<close>, \<open>fgColor\<close> and \<open>bgColor\<close>).
\<close>

datatype yaml =
    YNull
  | YBool bool
  | YInt int
  | YStr string
  | YSeq "yaml list"
  | YMap "(string \<times> yaml) list"

text \<open>
  A file is modelled by the document its parser yields: a YAML file by the value
  \<open>yaml.safe_load\<close> returns for it, an XML file by the root \<open>ElementTree.parse\<close> returns
  for it. The text form, and that \<open>yaml.dump\<close> followed by \<open>yaml.safe_load\<close> (and
  \<open>ElementTree.write\<close> followed by \<open>ElementTree.parse\<close>) gives the document back, belong to
  the two libraries and are taken for granted. \<open>OtherFile\<close> is a file neither parser
  accepts.
\<close>

datatype document = YamlFile yaml | XmlFile element | OtherFile

text \<open>
  The file system: \<open>files\<close> gives the content of every path that can be opened for
  reading; \<open>writable\<close> holds the paths that \<open>open(path, "w")\<close> can open, creating or
  truncating a regular file there. On any other path opening for writing raises \<open>OSError\<close>
  and the file system stays as it was.
\<close>

record filesystem =
  files :: "string \<rightharpoonup> document"
  writable :: "string set"

definition write_file :: "filesystem \<Rightarrow> string \<Rightarrow> document \<Rightarrow> (error + unit) \<times> filesystem" where
  "write_file fs path doc =
     (if path \<in> writable fs then (Inr (), fs\<lparr>files := (files fs)(path \<mapsto> doc)\<rparr>)
      else (Inl OSError, fs))"

text \<open>
  \<open>d.get(key, default)\<close>: only a mapping has the method; on any other value the attribute
  lookup raises \<open>AttributeError\<close>.
\<close>

definition dict_get :: "yaml \<Rightarrow> string \<Rightarrow> yaml \<Rightarrow> error + yaml" where
  "dict_get d k dflt =
     (case d of
        YMap kvs \<Rightarrow> Inr (case map_of kvs k of None \<Rightarrow> dflt | Some v \<Rightarrow> v)
      | _ \<Rightarrow> Inl AttributeError)"

text \<open>
  The items a \<open>for\<close> loop draws from a value: the members of a sequence, the characters of a
  string (each a string), the keys of a mapping; \<open>TypeError\<close> on a value that is not
  iterable.
\<close>

definition py_iter :: "yaml \<Rightarrow> error + yaml list" where
  "py_iter v =
     (case v of
        YSeq xs \<Rightarrow> Inr xs
      | YStr s \<Rightarrow> Inr (map (\<lambda>c. YStr [c]) s)
      | YMap kvs \<Rightarrow> Inr (map (\<lambda>kv. YStr (fst kv)) kvs)
      | _ \<Rightarrow> Inl TypeError)"

text \<open>The values that fit the annotations \<open>list[str]\<close> and \<open>str | None\<close>.\<close>

fun as_str :: "yaml \<Rightarrow> string option" where
  "as_str (YStr s) = Some s"
| "as_str _ = None"

definition as_names :: "yaml \<Rightarrow> string list option" where
  "as_names v =
     (case v of
        YSeq xs \<Rightarrow> (if list_all (\<lambda>x. as_str x \<noteq> None) xs then Some (map (\<lambda>x. the (as_str x)) xs)
                    else None)
      | _ \<Rightarrow> None)"

definition as_color :: "yaml \<Rightarrow> string option option" where
  "as_color v = (case v of YNull \<Rightarrow> Some None | YStr s \<Rightarrow> Some (Some s) | _ \<Rightarrow> None)"

text \<open>
  The body of the loop in \<open>load_styles_from_config\<close>: the three \<open>data.get\<close> calls, then
  \<open>Style(...)\<close>.
\<close>

definition style_of_data :: "yaml \<Rightarrow> error + Style" where
  "style_of_data data =
     (case dict_get data ''names'' (YSeq []) of
        Inl e \<Rightarrow> Inl e
      | Inr nv \<Rightarrow>
     (case dict_get data ''fgColor'' YNull of
        Inl e \<Rightarrow> Inl e
      | Inr fv \<Rightarrow>
     (case dict_get data ''bgColor'' YNull of
        Inl e \<Rightarrow> Inl e
      | Inr bv \<Rightarrow>
     (case (as_names nv, as_color fv, as_color bv) of
        (Some ns, Some fg, Some bg) \<Rightarrow> Style_init ns fg bg
      | _ \<Rightarrow> Inl Unmodelled))))"

text \<open>The loop itself: \<open>styles.append\<close> per item, the first exception ends it.\<close>

fun load_loop :: "Style list \<Rightarrow> yaml list \<Rightarrow> error + Style list" where
  "load_loop styles [] = Inr styles"
| "load_loop styles (data # rest) =
     (case style_of_data data of
        Inl e \<Rightarrow> Inl e
      | Inr style \<Rightarrow> load_loop (styles @ [style]) rest)"

definition load_styles_from_config :: "filesystem \<Rightarrow> string \<Rightarrow> error + Style list" where
  "load_styles_from_config fs config_file_path =
     (case files fs config_file_path of
        None \<Rightarrow> Inl OSError
      | Some (YamlFile config_data) \<Rightarrow>
          (case dict_get config_data ''styles'' (YSeq []) of
             Inl e \<Rightarrow> Inl e
           | Inr sv \<Rightarrow>
               (case py_iter sv of
                  Inl e \<Rightarrow> Inl e
                | Inr items \<Rightarrow> load_loop [] items))
      | Some _ \<Rightarrow> Inl YAMLError)"

text \<open>\<open>dataclasses.asdict\<close>: the fields in declaration order, \<open>None\<close> as null.\<close>

definition yaml_of_color :: "string option \<Rightarrow> yaml" where
  "yaml_of_color c = (case c of None \<Rightarrow> YNull | Some s \<Rightarrow> YStr s)"

definition asdict :: "Style \<Rightarrow> yaml" where
  "asdict style =
     YMap [(''names'', YSeq (map YStr (names style))),
           (''fgColor'', yaml_of_color (fgColor style)),
           (''bgColor'', yaml_of_color (bgColor style))]"

text \<open>
  \<open>yaml.dump(..., sort_keys=True)\<close> writes the keys of every mapping in sorted order, which
  is the order the parser then finds them in.
\<close>

fun sort_keys :: "yaml \<Rightarrow> yaml" where
  "sort_keys (YSeq xs) = YSeq (map sort_keys xs)"
| "sort_keys (YMap kvs) = YMap (sort_key fst (map (\<lambda>kv. (fst kv, sort_keys (snd kv))) kvs))"
| "sort_keys v = v"

text \<open>
  \<open>format_config_file\<close> returns nothing; the model returns how the call ended (\<open>Inr ()\<close> or
  the exception of \<open>open\<close>) and the file system it leaves.
\<close>

definition format_config_file ::
  "filesystem \<Rightarrow> string \<Rightarrow> Style list \<Rightarrow> (error + unit) \<times> filesystem" where
  "format_config_file fs config_file_path styles =
     (let config_data = YMap [(''styles'', YSeq (map asdict styles))]
      in write_file fs config_file_path (YamlFile (sort_keys config_data)))"

section \<open>XML accessors\<close>

definition parse_xml_file :: "filesystem \<Rightarrow> string \<Rightarrow> error + element" where
  "parse_xml_file fs file_path =
     (case files fs file_path of
        None \<Rightarrow> Inl OSError
      | Some (XmlFile root) \<Rightarrow> Inr root
      | Some _ \<Rightarrow> Inl ParseError)"

definition get_lexer_styles :: "element \<Rightarrow> error + element" where
  "get_lexer_styles root =
     (case elem_find root ''LexerStyles'' of
        Some lexer_styles \<Rightarrow> Inr lexer_styles
      | None \<Rightarrow> Inl (ValueError ''LexerStyles element not found''))"

definition get_global_styles :: "element \<Rightarrow> error + element" where
  "get_global_styles root =
     (case elem_find root ''GlobalStyles'' of
        Some global_styles \<Rightarrow> Inr global_styles
      | None \<Rightarrow> Inl (ValueError ''GlobalStyles element not found''))"

text \<open>The spec's \<open>StructureError\<close>: one of the two \<open>ValueError\<close>s of the section accessors.\<close>

definition StructureError :: "error \<Rightarrow> bool" where
  "StructureError e =
     (e = ValueError ''LexerStyles element not found'' \<or>
      e = ValueError ''GlobalStyles element not found'')"

definition get_lexer_types :: "element \<Rightarrow> element list" where
  "get_lexer_types lexer_styles = elem_findall lexer_styles ''LexerType''"

definition get_words_styles :: "element \<Rightarrow> element list" where
  "get_words_styles lexer_type = elem_findall lexer_type ''WordsStyle''"

definition get_widget_styles :: "element \<Rightarrow> element list" where
  "get_widget_styles global_styles = elem_findall global_styles ''WidgetStyle''"

section \<open>Template builder\<close>

text \<open>
  The two inner loops of \<open>create_or_update_template\<close>, run on one leaf:
  \<open>for style in styles: for name in style.names: update_fg_bg_color(leaf, name, ...)\<close>.
\<close>

definition apply_style :: "Style \<Rightarrow> element \<Rightarrow> element" where
  "apply_style style leaf =
     foldl (\<lambda>e name. update_fg_bg_color e name (fgColor style) (bgColor style)) leaf (names style)"

definition apply_styles :: "Style list \<Rightarrow> element \<Rightarrow> element" where
  "apply_styles styles leaf = foldl (\<lambda>e style. apply_style style e) leaf styles"

text \<open>
  The source mutates the elements that \<open>find\<close> and \<open>findall\<close> hand out, in place inside the
  parsed tree (a tree: no element has two parents). The model rebuilds the parent with the
  changed children at their positions: \<open>on_findall t f\<close> changes every child that
  \<open>findall(t)\<close> returns, \<open>on_find t f\<close> the one child that \<open>find(t)\<close> returns.
\<close>

fun map_first :: "('a \<Rightarrow> bool) \<Rightarrow> ('a \<Rightarrow> 'a) \<Rightarrow> 'a list \<Rightarrow> 'a list" where
  "map_first P f [] = []"
| "map_first P f (x # xs) = (if P x then f x # xs else x # map_first P f xs)"

definition on_find :: "string \<Rightarrow> (element \<Rightarrow> element) \<Rightarrow> element \<Rightarrow> element" where
  "on_find t f e = Element (tag e) (attrib e) (map_first (\<lambda>c. tag c = t) f (children e))"

definition on_findall :: "string \<Rightarrow> (element \<Rightarrow> element) \<Rightarrow> element \<Rightarrow> element" where
  "on_findall t f e =
     Element (tag e) (attrib e) (map (\<lambda>c. if tag c = t then f c else c) (children e))"

text \<open>The loop nest over the lexer styles, and the one over the global styles.\<close>

definition update_lexer_styles :: "Style list \<Rightarrow> element \<Rightarrow> element" where
  "update_lexer_styles styles lexer_styles =
     on_findall ''LexerType'' (on_findall ''WordsStyle'' (apply_styles styles)) lexer_styles"

definition update_global_styles :: "Style list \<Rightarrow> element \<Rightarrow> element" where
  "update_global_styles styles global_styles =
     on_findall ''WidgetStyle'' (apply_styles styles) global_styles"

text \<open>
  \<open>create_or_update_template\<close> returns nothing; the model returns how the call ended
  (\<open>Inr ()\<close> or the exception) and the file system it leaves. The only write is the last
  statement, \<open>tree.write\<close>, which opens the target for writing.
\<close>

definition create_or_update_template ::
  "filesystem \<Rightarrow> string \<Rightarrow> string \<Rightarrow> string \<Rightarrow> (error + unit) \<times> filesystem" where
  "create_or_update_template fs source_file_path target_file_path config_file_path =
     (case load_styles_from_config fs config_file_path of
        Inl e \<Rightarrow> (Inl e, fs)
      | Inr styles \<Rightarrow>
     (case parse_xml_file fs source_file_path of
        Inl e \<Rightarrow> (Inl e, fs)
      | Inr root \<Rightarrow>
     (case get_lexer_styles root of
        Inl e \<Rightarrow> (Inl e, fs)
      | Inr lexer_styles \<Rightarrow>
          (let root1 = on_find ''LexerStyles'' (update_lexer_styles styles) root in
     (case get_global_styles root1 of
        Inl e \<Rightarrow> (Inl e, fs)
      | Inr global_styles \<Rightarrow>
          (let root2 = on_find ''GlobalStyles'' (update_global_styles styles) root1 in
           write_file fs target_file_path (XmlFile root2)))))))"

section \<open>Style auditor\<close>

text \<open>
  \<open>sorted\<close> on a set of \<open>Element.get("name")\<close> results, each a string or \<open>None\<close>: strings
  sort in ascending order, a lone \<open>None\<close> is returned as it is, and \<open>None\<close> next to a string
  raises \<open>TypeError\<close> (the two do not compare).
\<close>

definition py_sorted :: "string option set \<Rightarrow> error + string option list" where
  "py_sorted S =
     (if None \<in> S then (if S = {None} then Inr [None] else Inl TypeError)
      else Inr (map Some (sorted_list_of_set (the ` S))))"

definition get_distinct_style_names :: "element \<Rightarrow> error + string option list" where
  "get_distinct_style_names lexer_styles =
     py_sorted (set (concat (map (\<lambda>lexer_type.
        map (\<lambda>style. elem_get style ''name'') (elem_findall lexer_type ''WordsStyle''))
        (get_lexer_types lexer_styles))))"

definition get_distinct_missing_style_names ::
  "element \<Rightarrow> Style list \<Rightarrow> error + string option list" where
  "get_distinct_missing_style_names lexer_styles styles =
     (case get_distinct_style_names lexer_styles of
        Inl e \<Rightarrow> Inl e
      | Inr existing \<Rightarrow>
          (let existing_style_names = set existing;
               config_style_names = Some ` (\<Union>style \<in> set styles. set (names style));
               missing_names = existing_style_names - config_style_names
           in py_sorted missing_names))"

section \<open>Notions used to state the properties\<close>

text \<open>
  A style rule the constructor accepts: \<open>Style(names, fgColor, bgColor)\<close> on its fields does
  not raise.
\<close>

definition valid_style :: "Style \<Rightarrow> bool" where
  "valid_style s = (\<not> isl (Style_init (names s) (fgColor s) (bgColor s)))"

text \<open>Name-set normalization: the names as \<open>sorted(set(names))\<close>, the colours as they are.\<close>

definition normalize_names :: "Style \<Rightarrow> Style" where
  "normalize_names s = s\<lparr>names := sorted_list_of_set (set (names s))\<rparr>"

text \<open>A rule matches a leaf when the leaf's \<open>name\<close> attribute is one of the rule's names.\<close>

definition rule_matches :: "Style \<Rightarrow> element \<Rightarrow> bool" where
  "rule_matches style leaf = (elem_get leaf ''name'' \<in> Some ` set (names style))"

text \<open>
  The leaves a build visits, in the order it visits them: the \<open>WordsStyle\<close> children of the
  \<open>LexerType\<close> children of the \<open>LexerStyles\<close> section, then the \<open>WidgetStyle\<close> children of
  the \<open>GlobalStyles\<close> section.
\<close>

definition style_leaves :: "element \<Rightarrow> element list" where
  "style_leaves root =
     (case elem_find root ''LexerStyles'' of
        None \<Rightarrow> []
      | Some lexer_styles \<Rightarrow> concat (map get_words_styles (get_lexer_types lexer_styles)))
     @ (case elem_find root ''GlobalStyles'' of
        None \<Rightarrow> []
      | Some global_styles \<Rightarrow> get_widget_styles global_styles)"

subsection \<open>A small source document and configuration\<close>

definition example_source :: element where
  "example_source =
     Element ''NotepadPlus'' []
       [Element ''LexerStyles'' []
          [Element ''LexerType'' [(''name'', ''python'')]
             [Element ''WordsStyle'' [(''name'', ''Keyword''), (''fgColor'', ''0000FF''), (''bgColor'', ''FFFFFF'')] [],
              Element ''WordsStyle'' [(''name'', ''Default''), (''fgColor'', ''000000'')] []]],
        Element ''GlobalStyles'' []
          [Element ''WidgetStyle'' [(''name'', ''Keyword''), (''bgColor'', ''EEEEEE'')] []]]"

definition example_config :: yaml where
  "example_config =
     YMap [(''styles'', YSeq
       [YMap [(''names'', YSeq [YStr ''Keyword'']), (''fgColor'', YStr ''$base08''), (''bgColor'', YStr ''$surface'')],
        YMap [(''names'', YSeq [YStr ''Keyword'']), (''fgColor'', YStr ''$love'')]])]"

definition example_fs :: filesystem where
  "example_fs =
     \<lparr>files = [''stylers.xml'' \<mapsto> XmlFile example_source, ''config.yaml'' \<mapsto> YamlFile example_config],
      writable = {''template.xml''}\<rparr>"

definition example_styles :: "Style list" where
  "example_styles =
     [\<lparr>names = [''Keyword''], fgColor = Some ''$base08'', bgColor = Some ''$surface''\<rparr>,
      \<lparr>names = [''Keyword''], fgColor = Some ''$love'', bgColor = None\<rparr>]"

section \<open>Properties of the style model\<close>

lemma startswith_Nil [simp]: "startswith [] ''$'' = False"
  by (simp add: startswith_def)

lemma startswith_Cons [simp]: "startswith (c # s) ''$'' = (c = CHR ''$'')"
  by (simp add: startswith_def)

text \<open>
  C1 (not met by the code). Construction is to fail for every present colour string without
  the \<open>$\<close> prefix, the empty string included, and the messages of \<open>__post_init__\<close> say so
  ("must start with '$' if provided"). Its prefix checks test the colour's truth value
  (\<open>if self.fgColor and ...\<close>), so an empty colour string, which is not \<open>None\<close>, counts as
  a provided colour in the second check and is skipped by the third and fourth: construction
  succeeds and stores the empty colour.
\<close>

theorem Style_init_empty_color_accepted:
  "\<not> startswith '''' ''$''
   \<and> Style_init [''Keyword''] (Some '''') None =
       Inr \<lparr>names = [''Keyword''], fgColor = Some '''', bgColor = None\<rparr>"
  by (simp add: Style_init_def truthy_def)

text \<open>
  The failure conditions the checks do implement: empty names, both colours absent, or a
  present colour that is not empty and does not start with \<open>$\<close>. On each of them
  construction ends in one of the four \<open>ValueError\<close>s of \<open>__post_init__\<close>.
\<close>

theorem Style_init_rejects:
  assumes "ns = [] \<or> (fg = None \<and> bg = None)
         \<or> (\<exists>c. fg = Some c \<and> c \<noteq> [] \<and> \<not> startswith c ''$'')
         \<or> (\<exists>c. bg = Some c \<and> c \<noteq> [] \<and> \<not> startswith c ''$'')"
  shows "\<exists>e. Style_init ns fg bg = Inl e \<and> ValidationError e"
  using assms by (auto simp add: Style_init_def ValidationError_def truthy_def)

theorem Style_init_rejects_witness:
  "\<exists>e. Style_init [''Keyword''] (Some ''base08'') None = Inl e \<and> ValidationError e"
  by (rule Style_init_rejects) simp

text \<open>
  C8. A valid input is one that meets none of the failure conditions of the constructor
  contract: the names are not empty, at least one colour is present, and every present
  colour starts with \<open>$\<close>. On every such input construction succeeds, keeps both colours,
  and stores exactly the distinct input names in ascending order.
\<close>

theorem Style_init_valid:
  assumes "ns \<noteq> []"
    and "fg \<noteq> None \<or> bg \<noteq> None"
    and "\<forall>c. fg = Some c \<longrightarrow> startswith c ''$''"
    and "\<forall>c. bg = Some c \<longrightarrow> startswith c ''$''"
  shows "\<exists>st. Style_init ns fg bg = Inr st
           \<and> names st = sorted_list_of_set (set ns)
           \<and> set (names st) = set ns \<and> distinct (names st) \<and> sorted (names st)
           \<and> fgColor st = fg \<and> bgColor st = bg"
proof -
  have fgok: "\<not> (truthy fg \<and> \<not> startswith (the fg) ''$'')"
    using assms(3) by (cases fg) (simp_all add: truthy_def)
  have bgok: "\<not> (truthy bg \<and> \<not> startswith (the bg) ''$'')"
    using assms(4) by (cases bg) (simp_all add: truthy_def)
  have "Style_init ns fg bg =
          Inr \<lparr>names = sorted_list_of_set (set ns), fgColor = fg, bgColor = bg\<rparr>"
    using assms(1,2) fgok bgok unfolding Style_init_def by presburger
  then show ?thesis by simp
qed

theorem Style_init_valid_witness:
  "[''b'', ''a'', ''b''] \<noteq> [] \<and> Some ''$base'' \<noteq> (None :: string option)
     \<and> (\<exists>st. Style_init [''b'', ''a'', ''b''] (Some ''$base'') None = Inr st
           \<and> names st = [''a'', ''b''] \<and> fgColor st = Some ''$base'' \<and> bgColor st = None)"
proof -
  have srt: "sorted_list_of_set (set [''b'', ''a'', ''b'']) = [''a'', ''b'']"
    by code_simp
  have "\<exists>st. Style_init [''b'', ''a'', ''b''] (Some ''$base'') None = Inr st
           \<and> names st = sorted_list_of_set (set [''b'', ''a'', ''b''])
           \<and> set (names st) = set [''b'', ''a'', ''b''] \<and> distinct (names st) \<and> sorted (names st)
           \<and> fgColor st = Some ''$base'' \<and> bgColor st = None"
    by (rule Style_init_valid) simp_all
  then show ?thesis unfolding srt by auto
qed

section \<open>Properties of the color updater\<close>

lemma elem_get_elem_set:
  "elem_get (elem_set e k v) k' = (if k' = k then Some v else elem_get e k')"
  by (simp add: elem_get_def elem_set_def update_conv')

lemma tag_elem_set [simp]: "tag (elem_set e k v) = tag e"
  by (simp add: elem_set_def)

lemma children_elem_set [simp]: "children (elem_set e k v) = children e"
  by (simp add: elem_set_def)

lemma update_fg_bg_color_other_name:
  "elem_get e ''name'' \<noteq> Some n \<Longrightarrow> update_fg_bg_color e n fg bg = e"
  by (simp add: update_fg_bg_color_def)

lemma tag_update_fg_bg_color [simp]: "tag (update_fg_bg_color e n fg bg) = tag e"
  by (simp add: update_fg_bg_color_def Let_def split: option.splits)

lemma children_update_fg_bg_color [simp]:
  "children (update_fg_bg_color e n fg bg) = children e"
  by (simp add: update_fg_bg_color_def Let_def split: option.splits)

lemma elem_get_update_fg_bg_color:
  "elem_get (update_fg_bg_color e n fg bg) k =
     (if elem_get e ''name'' = Some n \<and> k = ''bgColor'' \<and> bg \<noteq> None then bg
      else if elem_get e ''name'' = Some n \<and> k = ''fgColor'' \<and> fg \<noteq> None then fg
      else elem_get e k)"
  by (auto simp add: update_fg_bg_color_def Let_def elem_get_elem_set split: option.splits)

text \<open>
  C3. On an element whose \<open>name\<close> attribute is the candidate name, a call with a foreground
  colour and no background colour sets \<open>fgColor\<close> and leaves every other attribute, the
  \<open>bgColor\<close> among them, as it was (absent stays absent); a call with a background colour
  and no foreground colour does the same with the two roles exchanged.
\<close>

theorem update_fg_bg_color_one_color:
  assumes "elem_get e ''name'' = Some n"
  shows "elem_get (update_fg_bg_color e n (Some fg) None) ''fgColor'' = Some fg
       \<and> elem_get (update_fg_bg_color e n (Some fg) None) ''bgColor'' = elem_get e ''bgColor''
       \<and> (\<forall>k. k \<noteq> ''fgColor'' \<longrightarrow>
             elem_get (update_fg_bg_color e n (Some fg) None) k = elem_get e k)
       \<and> elem_get (update_fg_bg_color e n None (Some bg)) ''bgColor'' = Some bg
       \<and> elem_get (update_fg_bg_color e n None (Some bg)) ''fgColor'' = elem_get e ''fgColor''
       \<and> (\<forall>k. k \<noteq> ''bgColor'' \<longrightarrow>
             elem_get (update_fg_bg_color e n None (Some bg)) k = elem_get e k)"
  using assms by (simp add: elem_get_update_fg_bg_color)

theorem update_fg_bg_color_one_color_witness:
  "elem_get (Element ''WordsStyle'' [(''name'', ''Foo''), (''bgColor'', ''FFFFFF'')] []) ''name''
     = Some ''Foo''
   \<and> elem_get (update_fg_bg_color
        (Element ''WordsStyle'' [(''name'', ''Foo''), (''bgColor'', ''FFFFFF'')] [])
        ''Foo'' (Some ''$base'') None) ''fgColor'' = Some ''$base''
   \<and> elem_get (update_fg_bg_color
        (Element ''WordsStyle'' [(''name'', ''Foo''), (''bgColor'', ''FFFFFF'')] [])
        ''Foo'' (Some ''$base'') None) ''bgColor'' = Some ''FFFFFF''
   \<and> elem_get (update_fg_bg_color
        (Element ''WordsStyle'' [(''name'', ''Foo''), (''bgColor'', ''FFFFFF'')] [])
        ''Foo'' None (Some ''$surface'')) ''bgColor'' = Some ''$surface''
   \<and> elem_get (update_fg_bg_color
        (Element ''WordsStyle'' [(''name'', ''Foo''), (''bgColor'', ''FFFFFF'')] [])
        ''Foo'' None (Some ''$surface'')) ''fgColor'' = None"
proof -
  have n: "elem_get (Element ''WordsStyle'' [(''name'', ''Foo''), (''bgColor'', ''FFFFFF'')] [])
             ''name'' = Some ''Foo''"
    by (simp add: elem_get_def)
  show ?thesis
    using update_fg_bg_color_one_color [OF n, of "''$base''" "''$surface''"] n
    by (simp add: elem_get_def)
qed

text \<open>
  C7. On an element whose \<open>name\<close> attribute is not the candidate name (or that has none),
  the call returns the element as it was, whatever the two colours are. The function has no
  raising branch: its model is a total function into elements.
\<close>

theorem update_fg_bg_color_mismatch:
  assumes "elem_get e ''name'' \<noteq> Some n"
  shows "update_fg_bg_color e n fg bg = e"
  using assms by (simp add: update_fg_bg_color_def)

theorem update_fg_bg_color_mismatch_witness:
  "elem_get (Element ''WordsStyle'' [(''name'', ''Foo''), (''fgColor'', ''000000'')] []) ''name''
     \<noteq> Some ''Bar''
   \<and> update_fg_bg_color (Element ''WordsStyle'' [(''name'', ''Foo''), (''fgColor'', ''000000'')] [])
        ''Bar'' (Some ''$base'') (Some ''$surface'')
     = Element ''WordsStyle'' [(''name'', ''Foo''), (''fgColor'', ''000000'')] []"
proof -
  have n: "elem_get (Element ''WordsStyle'' [(''name'', ''Foo''), (''fgColor'', ''000000'')] [])
             ''name'' \<noteq> Some ''Bar''"
    by (simp add: elem_get_def)
  show ?thesis
    using update_fg_bg_color_mismatch [OF n, of "Some ''$base''" "Some ''$surface''"] n
    by simp
qed

section \<open>Properties of the configuration loader and writer\<close>

text \<open>
  C10. When the configuration file parses to a mapping without the key \<open>styles\<close>, the
  default of \<open>config_data.get("styles", [])\<close> is used: the loader returns the empty rule
  list and raises nothing.
\<close>

theorem load_styles_from_config_no_styles_key:
  assumes "files fs path = Some (YamlFile (YMap kvs))" and "map_of kvs ''styles'' = None"
  shows "load_styles_from_config fs path = Inr []"
  using assms by (simp add: load_styles_from_config_def dict_get_def py_iter_def)

theorem load_styles_from_config_no_styles_key_witness:
  "load_styles_from_config
     \<lparr>files = [''config.yaml'' \<mapsto> YamlFile (YMap [(''palette'', YStr ''dawn'')])], writable = {}\<rparr>
     ''config.yaml''
     = Inr []"
  using load_styles_from_config_no_styles_key
    [of "\<lparr>files = [''config.yaml'' \<mapsto> YamlFile (YMap [(''palette'', YStr ''dawn'')])], writable = {}\<rparr>"
        "''config.yaml''" "[(''palette'', YStr ''dawn'')]"]
  by simp

lemma Style_init_cases:
  "Style_init ns fg bg = Inr \<lparr>names = sorted_list_of_set (set ns), fgColor = fg, bgColor = bg\<rparr>
   \<or> (\<exists>e. Style_init ns fg bg = Inl e)"
  by (simp add: Style_init_def)

lemma valid_style_init:
  "valid_style s \<Longrightarrow> Style_init (names s) (fgColor s) (bgColor s) = Inr (normalize_names s)"
  using Style_init_cases [of "names s" "fgColor s" "bgColor s"]
  by (auto simp add: valid_style_def normalize_names_def)

lemma sort_keys_names [simp]: "sort_keys (YSeq (map YStr ns)) = YSeq (map YStr ns)"
  by (simp add: comp_def)

lemma sort_keys_color [simp]: "sort_keys (yaml_of_color c) = yaml_of_color c"
  by (cases c) (simp_all add: yaml_of_color_def)

lemma sort_keys_asdict:
  "sort_keys (asdict s) =
     YMap [(''bgColor'', yaml_of_color (bgColor s)),
           (''fgColor'', yaml_of_color (fgColor s)),
           (''names'', YSeq (map YStr (names s)))]"
  unfolding asdict_def by (simp del: sort_keys.simps(1) add: sort_keys_names)

lemma as_names_strs [simp]: "as_names (YSeq (map YStr ns)) = Some ns"
  by (simp add: as_names_def list_all_iff comp_def)

lemma as_color_yaml [simp]: "as_color (yaml_of_color c) = Some c"
  by (cases c) (simp_all add: as_color_def yaml_of_color_def)

lemma style_of_data_asdict:
  "style_of_data (sort_keys (asdict s)) = Style_init (names s) (fgColor s) (bgColor s)"
  by (simp add: sort_keys_asdict style_of_data_def dict_get_def)

lemma load_loop_dumped:
  "\<forall>s \<in> set styles. valid_style s \<Longrightarrow>
   load_loop acc (map (\<lambda>s. sort_keys (asdict s)) styles) = Inr (acc @ map normalize_names styles)"
  by (induction styles arbitrary: acc) (simp_all add: style_of_data_asdict valid_style_init)

lemma format_config_file_writable:
  "path \<in> writable fs \<Longrightarrow>
   format_config_file fs path styles =
     (Inr (), fs\<lparr>files := (files fs)(path \<mapsto>
        YamlFile (YMap [(''styles'', YSeq (map (\<lambda>s. sort_keys (asdict s)) styles))]))\<rparr>)"
  by (simp add: format_config_file_def write_file_def comp_def)

lemma format_config_file_unwritable:
  "path \<notin> writable fs \<Longrightarrow> format_config_file fs path styles = (Inl OSError, fs)"
  by (simp add: format_config_file_def write_file_def)

lemma load_format:
  "\<forall>s \<in> set styles. valid_style s \<Longrightarrow>
   load_styles_from_config
     (fs\<lparr>files := (files fs)(path \<mapsto>
        YamlFile (YMap [(''styles'', YSeq (map (\<lambda>s. sort_keys (asdict s)) styles))]))\<rparr>) path
    = Inr (map normalize_names styles)"
  by (simp add: load_styles_from_config_def dict_get_def py_iter_def load_loop_dumped)

lemma normalize_names_idem:
  "sorted (names s) \<Longrightarrow> distinct (names s) \<Longrightarrow> normalize_names s = s"
  by (simp add: normalize_names_def sorted_list_of_set.idem_if_sorted_distinct)

text \<open>
  C5. Writing a list of rules the constructor accepts to a path that can be opened for
  writing ends normally, and loading the written file gives the same rules in the same
  order, each with its names normalized and its two colours as they were; rules whose names
  are already sorted and distinct (as every constructed rule's are) come back equal. The
  file holds the document that \<open>yaml.dump\<close> wrote, as \<open>yaml.safe_load\<close> reads it back.
\<close>

theorem format_then_load_round_trip:
  assumes "\<forall>s \<in> set styles. valid_style s"
    and "path \<in> writable fs"
  shows "\<exists>fs'. format_config_file fs path styles = (Inr (), fs')
       \<and> load_styles_from_config fs' path = Inr (map normalize_names styles)
       \<and> list_all2 (\<lambda>a b. set (names b) = set (names a) \<and> fgColor b = fgColor a \<and> bgColor b = bgColor a)
            styles (map normalize_names styles)
       \<and> ((\<forall>s \<in> set styles. sorted (names s) \<and> distinct (names s)) \<longrightarrow>
            load_styles_from_config fs' path = Inr styles)"
proof -
  let ?fs' = "fs\<lparr>files := (files fs)(path \<mapsto>
        YamlFile (YMap [(''styles'', YSeq (map (\<lambda>s. sort_keys (asdict s)) styles))]))\<rparr>"
  have w: "format_config_file fs path styles = (Inr (), ?fs')"
    using assms(2) by (rule format_config_file_writable)
  have l: "load_styles_from_config ?fs' path = Inr (map normalize_names styles)"
    using assms(1) by (rule load_format)
  have r: "list_all2 (\<lambda>a b. set (names b) = set (names a) \<and> fgColor b = fgColor a \<and> bgColor b = bgColor a)
            styles (map normalize_names styles)"
    by (simp add: list_all2_map2 list_all2_same normalize_names_def)
  have "load_styles_from_config ?fs' path = Inr styles"
    if "\<forall>s \<in> set styles. sorted (names s) \<and> distinct (names s)"
  proof -
    from that have "map normalize_names styles = styles"
      by (simp add: normalize_names_idem map_idI)
    with l show ?thesis by simp
  qed
  with w l r show ?thesis by blast
qed

theorem format_then_load_round_trip_witness:
  "\<exists>fs'. format_config_file \<lparr>files = Map.empty, writable = {''config.yaml''}\<rparr> ''config.yaml''
        [\<lparr>names = [''Comment'', ''Keyword''], fgColor = Some ''$base'', bgColor = None\<rparr>,
         \<lparr>names = [''Default''], fgColor = None, bgColor = Some ''''\<rparr>]
        = (Inr (), fs')
     \<and> load_styles_from_config fs' ''config.yaml''
        = Inr [\<lparr>names = [''Comment'', ''Keyword''], fgColor = Some ''$base'', bgColor = None\<rparr>,
               \<lparr>names = [''Default''], fgColor = None, bgColor = Some ''''\<rparr>]"
proof -
  let ?styles = "[\<lparr>names = [''Comment'', ''Keyword''], fgColor = Some ''$base'', bgColor = None\<rparr>,
         \<lparr>names = [''Default''], fgColor = None, bgColor = Some ''''\<rparr>]"
  have v: "\<forall>s \<in> set ?styles. valid_style s"
    by (simp add: valid_style_def Style_init_def truthy_def)
  have w: "''config.yaml'' \<in> writable \<lparr>files = Map.empty, writable = {''config.yaml''}\<rparr>"
    by simp
  have sd: "\<forall>s \<in> set ?styles. sorted (names s) \<and> distinct (names s)"
    by simp
  from format_then_load_round_trip [OF v w] sd
  show ?thesis by blast
qed

section \<open>Properties of the style auditor\<close>

lemma py_sorted_Some:
  "finite N \<Longrightarrow> py_sorted (Some ` N) = Inr (map Some (sorted_list_of_set N))"
  by (auto simp add: py_sorted_def image_image)

lemma name_attrs_eq:
  assumes "\<forall>lt \<in> set (get_lexer_types ls). \<forall>ws \<in> set (get_words_styles lt). elem_get ws ''name'' \<noteq> None"
  shows "set (concat (map (\<lambda>lexer_type.
        map (\<lambda>style. elem_get style ''name'') (elem_findall lexer_type ''WordsStyle''))
        (get_lexer_types ls)))
     = Some ` {n. \<exists>lt \<in> set (get_lexer_types ls). \<exists>ws \<in> set (get_words_styles lt). elem_get ws ''name'' = Some n}"
  (is "?L = Some ` ?N")
proof (rule set_eqI)
  fix x
  show "x \<in> ?L \<longleftrightarrow> x \<in> Some ` ?N"
  proof
    assume "x \<in> ?L"
    then obtain lt ws where *: "lt \<in> set (get_lexer_types ls)" "ws \<in> set (get_words_styles lt)"
      "x = elem_get ws ''name''"
      by (auto simp add: get_words_styles_def)
    with assms have "x \<noteq> None" by metis
    then obtain n where n: "x = Some n" by auto
    with * have "n \<in> ?N" by force
    with n show "x \<in> Some ` ?N" by simp
  next
    assume "x \<in> Some ` ?N"
    then show "x \<in> ?L" by (auto simp add: get_words_styles_def) force
  qed
qed

lemma finite_names:
  "finite {n. \<exists>lt \<in> set (get_lexer_types ls). \<exists>ws \<in> set (get_words_styles lt). elem_get ws ''name'' = Some n}"
proof -
  have "{n. \<exists>lt \<in> set (get_lexer_types ls). \<exists>ws \<in> set (get_words_styles lt). elem_get ws ''name'' = Some n}
      \<subseteq> the ` (\<Union>lt \<in> set (get_lexer_types ls). (\<lambda>ws. elem_get ws ''name'') ` set (get_words_styles lt))"
    by force
  then show ?thesis by (rule finite_subset) simp
qed

lemma distinct_names_ok:
  assumes "\<forall>lt \<in> set (get_lexer_types ls). \<forall>ws \<in> set (get_words_styles lt). elem_get ws ''name'' \<noteq> None"
  shows "get_distinct_style_names ls = Inr (map Some (sorted_list_of_set
     {n. \<exists>lt \<in> set (get_lexer_types ls). \<exists>ws \<in> set (get_words_styles lt). elem_get ws ''name'' = Some n}))"
  unfolding get_distinct_style_names_def name_attrs_eq [OF assms]
  by (rule py_sorted_Some) (rule finite_names)

lemma missing_names_ok:
  assumes "\<forall>lt \<in> set (get_lexer_types ls). \<forall>ws \<in> set (get_words_styles lt). elem_get ws ''name'' \<noteq> None"
  shows "get_distinct_missing_style_names ls styles = Inr (map Some (sorted_list_of_set
     ({n. \<exists>lt \<in> set (get_lexer_types ls). \<exists>ws \<in> set (get_words_styles lt). elem_get ws ''name'' = Some n}
       - (\<Union>style \<in> set styles. set (names style)))))"
proof -
  let ?N = "{n. \<exists>lt \<in> set (get_lexer_types ls). \<exists>ws \<in> set (get_words_styles lt). elem_get ws ''name'' = Some n}"
  let ?C = "\<Union>style \<in> set styles. set (names style)"
  have fin: "finite ?N" by (rule finite_names)
  have "set (map Some (sorted_list_of_set ?N)) - Some ` ?C = Some ` (?N - ?C)"
    using fin by (simp add: image_set_diff)
  moreover have "finite (?N - ?C)" using fin by simp
  ultimately show ?thesis
    by (simp add: get_distinct_missing_style_names_def distinct_names_ok [OF assms] Let_def
        py_sorted_Some del: set_map)
qed

lemma no_members_Nil: "set ys \<subseteq> {c} \<Longrightarrow> c \<notin> set ys \<Longrightarrow> ys = []"
  by (cases ys) auto

lemma singleton_list: "distinct xs \<Longrightarrow> set xs = {c} \<Longrightarrow> xs = [c]"
  by (cases xs) (auto simp add: no_members_Nil)

text \<open>
  C6. When every \<open>WordsStyle\<close> leaf under the \<open>LexerType\<close> children of the section has a
  \<open>name\<close> attribute, \<open>get_distinct_missing_style_names\<close> returns the sorted list, without
  repetition, of exactly those leaf names that no rule lists. A name found only on a
  \<open>WidgetStyle\<close> under \<open>GlobalStyles\<close> is therefore never in the result.
\<close>

theorem missing_style_names_exact:
  assumes "\<forall>lt \<in> set (get_lexer_types ls). \<forall>ws \<in> set (get_words_styles lt). elem_get ws ''name'' \<noteq> None"
  shows "\<exists>res. get_distinct_missing_style_names ls styles = Inr (map Some res)
           \<and> sorted res \<and> distinct res
           \<and> set res = {n. \<exists>lt \<in> set (get_lexer_types ls). \<exists>ws \<in> set (get_words_styles lt).
                             elem_get ws ''name'' = Some n}
                        - (\<Union>style \<in> set styles. set (names style))
           \<and> (\<forall>root gs w n. get_lexer_styles root = Inr ls \<and> get_global_styles root = Inr gs
                 \<and> w \<in> set (get_widget_styles gs) \<and> elem_get w ''name'' = Some n
                 \<and> (\<forall>lt \<in> set (get_lexer_types ls). \<forall>ws \<in> set (get_words_styles lt).
                        elem_get ws ''name'' \<noteq> Some n)
                 \<longrightarrow> n \<notin> set res)"
proof -
  let ?N = "{n. \<exists>lt \<in> set (get_lexer_types ls). \<exists>ws \<in> set (get_words_styles lt). elem_get ws ''name'' = Some n}"
  let ?C = "\<Union>style \<in> set styles. set (names style)"
  let ?res = "sorted_list_of_set (?N - ?C)"
  have fin: "finite (?N - ?C)" using finite_names [of ls] by simp
  have r: "get_distinct_missing_style_names ls styles = Inr (map Some ?res)"
    using assms by (rule missing_names_ok)
  have s: "set ?res = ?N - ?C" using fin by simp
  have "sorted ?res" "distinct ?res" by simp_all
  moreover have "\<forall>root gs w n. get_lexer_styles root = Inr ls \<and> get_global_styles root = Inr gs
                 \<and> w \<in> set (get_widget_styles gs) \<and> elem_get w ''name'' = Some n
                 \<and> (\<forall>lt \<in> set (get_lexer_types ls). \<forall>ws \<in> set (get_words_styles lt).
                        elem_get ws ''name'' \<noteq> Some n)
                 \<longrightarrow> n \<notin> set ?res"
    unfolding s by blast
  ultimately show ?thesis using r s by blast
qed

theorem missing_style_names_exact_witness:
  "get_distinct_missing_style_names
     (Element ''LexerStyles'' []
        [Element ''LexerType'' [(''name'', ''c'')]
           [Element ''WordsStyle'' [(''name'', ''A'')] [],
            Element ''WordsStyle'' [(''name'', ''B'')] [],
            Element ''WordsStyle'' [(''name'', ''A'')] []],
         Element ''LexerType'' [(''name'', ''py'')]
           [Element ''WordsStyle'' [(''name'', ''C'')] []]])
     [\<lparr>names = [''A'', ''B''], fgColor = Some ''$base'', bgColor = None\<rparr>]
   = Inr [Some ''C'']"
proof -
  let ?ls = "Element ''LexerStyles'' []
        [Element ''LexerType'' [(''name'', ''c'')]
           [Element ''WordsStyle'' [(''name'', ''A'')] [],
            Element ''WordsStyle'' [(''name'', ''B'')] [],
            Element ''WordsStyle'' [(''name'', ''A'')] []],
         Element ''LexerType'' [(''name'', ''py'')]
           [Element ''WordsStyle'' [(''name'', ''C'')] []]]"
  let ?styles = "[\<lparr>names = [''A'', ''B''], fgColor = Some ''$base'', bgColor = None\<rparr>]"
  have h: "\<forall>lt \<in> set (get_lexer_types ?ls). \<forall>ws \<in> set (get_words_styles lt). elem_get ws ''name'' \<noteq> None"
    by (auto simp add: get_lexer_types_def get_words_styles_def elem_findall_def elem_get_def)
  have n: "{n. \<exists>lt \<in> set (get_lexer_types ?ls). \<exists>ws \<in> set (get_words_styles lt).
              elem_get ws ''name'' = Some n} - (\<Union>style \<in> set ?styles. set (names style)) = {''C''}"
    by (auto simp add: get_lexer_types_def get_words_styles_def elem_findall_def elem_get_def)
  from missing_style_names_exact [OF h, of ?styles] obtain res where
    r: "get_distinct_missing_style_names ?ls ?styles = Inr (map Some res)"
    and d: "distinct res"
    and s: "set res = {n. \<exists>lt \<in> set (get_lexer_types ?ls). \<exists>ws \<in> set (get_words_styles lt).
              elem_get ws ''name'' = Some n} - (\<Union>style \<in> set ?styles. set (names style))"
    by blast
  from d s n have "res = [''C'']" by (simp add: singleton_list)
  with r show ?thesis by simp
qed

section \<open>Properties of the template builder\<close>

lemma find_map_first_other:
  "(\<And>x. P x \<Longrightarrow> \<not> Q x \<and> \<not> Q (f x)) \<Longrightarrow> List.find Q (map_first P f xs) = List.find Q xs"
  by (induction xs) auto

lemma find_map_first_same:
  "(\<And>x. P x \<Longrightarrow> P (f x)) \<Longrightarrow> List.find P (map_first P f xs) = map_option f (List.find P xs)"
  by (induction xs) auto

lemma tag_on_findall [simp]: "tag (on_findall t f e) = tag e"
  by (simp add: on_findall_def)

lemma tag_update_lexer_styles [simp]: "tag (update_lexer_styles styles e) = tag e"
  by (simp add: update_lexer_styles_def)

lemma tag_update_global_styles [simp]: "tag (update_global_styles styles e) = tag e"
  by (simp add: update_global_styles_def)

lemma elem_find_on_find_other:
  "t \<noteq> t' \<Longrightarrow> (\<And>c. tag (f c) = tag c) \<Longrightarrow> elem_find (on_find t f e) t' = elem_find e t'"
  by (simp add: elem_find_def on_find_def find_map_first_other)

lemma elem_find_on_find_same:
  "(\<And>c. tag (f c) = tag c) \<Longrightarrow> elem_find (on_find t f e) t = map_option f (elem_find e t)"
  by (simp add: elem_find_def on_find_def find_map_first_same)

lemma get_global_styles_after_lexer:
  "get_global_styles (on_find ''LexerStyles'' (update_lexer_styles styles) root) = get_global_styles root"
  by (simp add: get_global_styles_def elem_find_on_find_other)

lemma build_result_cases:
  "create_or_update_template fs source target config =
     (case load_styles_from_config fs config of
        Inl e \<Rightarrow> (Inl e, fs)
      | Inr styles \<Rightarrow>
     (case parse_xml_file fs source of
        Inl e \<Rightarrow> (Inl e, fs)
      | Inr root \<Rightarrow>
     (case get_lexer_styles root of
        Inl e \<Rightarrow> (Inl e, fs)
      | Inr ls \<Rightarrow>
     (case get_global_styles root of
        Inl e \<Rightarrow> (Inl e, fs)
      | Inr gs \<Rightarrow>
         write_file fs target (XmlFile
            (on_find ''GlobalStyles'' (update_global_styles styles)
               (on_find ''LexerStyles'' (update_lexer_styles styles) root)))))))"
  by (simp add: create_or_update_template_def Let_def get_global_styles_after_lexer
      split: sum.splits)

lemma name_update_fg_bg_color [simp]:
  "elem_get (update_fg_bg_color e n fg bg) ''name'' = elem_get e ''name''"
  by (simp add: elem_get_update_fg_bg_color)

lemma names_loop_get:
  "elem_get (foldl (\<lambda>e name. update_fg_bg_color e name fg bg) e ns) k =
     (if elem_get e ''name'' \<in> Some ` set ns \<and> k = ''bgColor'' \<and> bg \<noteq> None then bg
      else if elem_get e ''name'' \<in> Some ` set ns \<and> k = ''fgColor'' \<and> fg \<noteq> None then fg
      else elem_get e k)"
proof (induction ns arbitrary: e)
  case Nil
  then show ?case by simp
next
  case (Cons a ns)
  show ?case
    by (simp add: Cons.IH elem_get_update_fg_bg_color) auto
qed

lemma names_loop_tag [simp]:
  "tag (foldl (\<lambda>e name. update_fg_bg_color e name fg bg) e ns) = tag e"
  by (induction ns arbitrary: e) simp_all

lemma names_loop_unmatched:
  "elem_get e ''name'' \<notin> Some ` set ns \<Longrightarrow>
   foldl (\<lambda>e name. update_fg_bg_color e name fg bg) e ns = e"
  by (induction ns arbitrary: e) (auto simp add: update_fg_bg_color_other_name)

lemma apply_style_get:
  "elem_get (apply_style s e) k =
     (if rule_matches s e \<and> k = ''bgColor'' \<and> bgColor s \<noteq> None then bgColor s
      else if rule_matches s e \<and> k = ''fgColor'' \<and> fgColor s \<noteq> None then fgColor s
      else elem_get e k)"
  unfolding apply_style_def rule_matches_def by (rule names_loop_get)

lemma tag_apply_style [simp]: "tag (apply_style s e) = tag e"
  by (simp add: apply_style_def)

lemma apply_style_unmatched: "\<not> rule_matches s e \<Longrightarrow> apply_style s e = e"
  by (simp add: apply_style_def rule_matches_def names_loop_unmatched)

lemma tag_apply_styles [simp]: "tag (apply_styles styles e) = tag e"
  unfolding apply_styles_def by (induction styles arbitrary: e) simp_all

lemma apply_styles_Nil [simp]: "apply_styles [] e = e"
  by (simp add: apply_styles_def)

lemma apply_styles_snoc: "apply_styles (ss @ [s]) e = apply_style s (apply_styles ss e)"
  by (simp add: apply_styles_def)

lemma name_apply_styles [simp]: "elem_get (apply_styles ss e) ''name'' = elem_get e ''name''"
  by (induction ss rule: rev_induct) (simp_all add: apply_styles_snoc apply_style_get)

lemma rule_matches_apply_styles [simp]: "rule_matches s (apply_styles ss e) = rule_matches s e"
  by (simp add: rule_matches_def)

lemma apply_styles_unmatched:
  "\<forall>s \<in> set ss. \<not> rule_matches s e \<Longrightarrow> apply_styles ss e = e"
  unfolding apply_styles_def by (induction ss arbitrary: e) (simp_all add: apply_style_unmatched)

lemma apply_styles_fg:
  "elem_get (apply_styles ss e) ''fgColor'' =
     (if filter (\<lambda>s. rule_matches s e \<and> fgColor s \<noteq> None) ss = [] then elem_get e ''fgColor''
      else fgColor (last (filter (\<lambda>s. rule_matches s e \<and> fgColor s \<noteq> None) ss)))"
  by (induction ss rule: rev_induct) (auto simp add: apply_styles_snoc apply_style_get)

lemma apply_styles_bg:
  "elem_get (apply_styles ss e) ''bgColor'' =
     (if filter (\<lambda>s. rule_matches s e \<and> bgColor s \<noteq> None) ss = [] then elem_get e ''bgColor''
      else bgColor (last (filter (\<lambda>s. rule_matches s e \<and> bgColor s \<noteq> None) ss)))"
  by (induction ss rule: rev_induct) (auto simp add: apply_styles_snoc apply_style_get)

lemma elem_findall_on_findall:
  "(\<And>c. tag (f c) = tag c) \<Longrightarrow> elem_findall (on_findall t f e) t = map f (elem_findall e t)"
proof -
  assume tg: "\<And>c. tag (f c) = tag c"
  have "filter (\<lambda>c. tag c = t) (map (\<lambda>c. if tag c = t then f c else c) xs)
        = map f (filter (\<lambda>c. tag c = t) xs)" for xs
    by (induction xs) (simp_all add: tg)
  then show ?thesis by (simp add: elem_findall_def on_findall_def)
qed

lemma words_styles_updated:
  "concat (map get_words_styles (get_lexer_types (update_lexer_styles styles ls)))
     = map (apply_styles styles) (concat (map get_words_styles (get_lexer_types ls)))"
  by (simp add: get_lexer_types_def get_words_styles_def update_lexer_styles_def
      elem_findall_on_findall map_concat comp_def)

lemma widget_styles_updated:
  "get_widget_styles (update_global_styles styles gs) = map (apply_styles styles) (get_widget_styles gs)"
  by (simp add: get_widget_styles_def update_global_styles_def elem_findall_on_findall)

lemma style_leaves_built:
  "style_leaves (on_find ''GlobalStyles'' (update_global_styles styles)
               (on_find ''LexerStyles'' (update_lexer_styles styles) root))
   = map (apply_styles styles) (style_leaves root)"
  by (simp add: style_leaves_def elem_find_on_find_other elem_find_on_find_same
      words_styles_updated widget_styles_updated split: option.splits)

lemma build_ok:
  assumes "load_styles_from_config fs config = Inr styles"
    and "parse_xml_file fs source = Inr root"
    and "get_lexer_styles root = Inr ls"
    and "get_global_styles root = Inr gs"
    and "target \<in> writable fs"
  shows "\<exists>root'. create_or_update_template fs source target config
                    = (Inr (), fs\<lparr>files := (files fs)(target \<mapsto> XmlFile root')\<rparr>)
           \<and> style_leaves root' = map (apply_styles styles) (style_leaves root)"
  using assms
  by (intro exI [of _ "on_find ''GlobalStyles'' (update_global_styles styles)
               (on_find ''LexerStyles'' (update_lexer_styles styles) root)"])
     (simp add: build_result_cases style_leaves_built write_file_def)

lemma build_unwritable_target:
  assumes "load_styles_from_config fs config = Inr styles"
    and "parse_xml_file fs source = Inr root"
    and "get_lexer_styles root = Inr ls"
    and "get_global_styles root = Inr gs"
    and "target \<notin> writable fs"
  shows "create_or_update_template fs source target config = (Inl OSError, fs)"
  using assms by (simp add: build_result_cases write_file_def)

lemma build_loader_failure:
  "load_styles_from_config fs config = Inl e \<Longrightarrow>
   create_or_update_template fs source target config = (Inl e, fs)"
  by (simp add: build_result_cases)

lemma example_load: "load_styles_from_config example_fs ''config.yaml'' = Inr example_styles"
  by (simp add: load_styles_from_config_def example_fs_def example_config_def dict_get_def
      py_iter_def style_of_data_def as_names_def as_color_def Style_init_def truthy_def
      example_styles_def)

lemma example_parse: "parse_xml_file example_fs ''stylers.xml'' = Inr example_source"
  by (simp add: parse_xml_file_def example_fs_def)

lemma example_target: "''template.xml'' \<in> writable example_fs"
  by (simp add: example_fs_def)

lemma example_lexer_styles:
  "get_lexer_styles example_source =
     Inr (Element ''LexerStyles'' []
          [Element ''LexerType'' [(''name'', ''python'')]
             [Element ''WordsStyle'' [(''name'', ''Keyword''), (''fgColor'', ''0000FF''), (''bgColor'', ''FFFFFF'')] [],
              Element ''WordsStyle'' [(''name'', ''Default''), (''fgColor'', ''000000'')] []]])"
  by (simp add: get_lexer_styles_def elem_find_def example_source_def)

lemma example_global_styles:
  "get_global_styles example_source =
     Inr (Element ''GlobalStyles'' []
          [Element ''WidgetStyle'' [(''name'', ''Keyword''), (''bgColor'', ''EEEEEE'')] []])"
  by (simp add: get_global_styles_def elem_find_def example_source_def)

lemma example_leaves:
  "style_leaves example_source =
     [Element ''WordsStyle'' [(''name'', ''Keyword''), (''fgColor'', ''0000FF''), (''bgColor'', ''FFFFFF'')] [],
      Element ''WordsStyle'' [(''name'', ''Default''), (''fgColor'', ''000000'')] [],
      Element ''WidgetStyle'' [(''name'', ''Keyword''), (''bgColor'', ''EEEEEE'')] []]"
  by (simp add: style_leaves_def example_source_def elem_find_def get_lexer_types_def
      get_words_styles_def get_widget_styles_def elem_findall_def)

text \<open>
  C2. In a build whose configuration has loaded and whose source document has parsed, a
  source in which the \<open>LexerStyles\<close> or the \<open>GlobalStyles\<close> section is missing under the root
  makes the build fail with the \<open>StructureError\<close> of the accessor of the first missing
  section, and the file system is left as it was: the target is neither created nor
  overwritten, whether or not it could be.
\<close>

theorem build_missing_section:
  assumes "load_styles_from_config fs config = Inr styles"
    and "parse_xml_file fs source = Inr root"
    and "elem_find root ''LexerStyles'' = None \<or> elem_find root ''GlobalStyles'' = None"
  shows "\<exists>e. StructureError e
           \<and> create_or_update_template fs source target config = (Inl e, fs)
           \<and> e = (if elem_find root ''LexerStyles'' = None
                  then ValueError ''LexerStyles element not found''
                  else ValueError ''GlobalStyles element not found'')"
  using assms
  by (auto simp add: build_result_cases get_lexer_styles_def get_global_styles_def
      StructureError_def split: option.splits)

theorem build_missing_section_witness:
  "create_or_update_template
     \<lparr>files = [''stylers.xml'' \<mapsto> XmlFile (Element ''NotepadPlus'' [] [Element ''LexerStyles'' [] []]),
               ''config.yaml'' \<mapsto> YamlFile example_config],
      writable = {''template.xml''}\<rparr>
     ''stylers.xml'' ''template.xml'' ''config.yaml''
   = (Inl (ValueError ''GlobalStyles element not found''),
      \<lparr>files = [''stylers.xml'' \<mapsto> XmlFile (Element ''NotepadPlus'' [] [Element ''LexerStyles'' [] []]),
                ''config.yaml'' \<mapsto> YamlFile example_config],
       writable = {''template.xml''}\<rparr>)"
proof -
  let ?root = "Element ''NotepadPlus'' [] [Element ''LexerStyles'' [] []]"
  let ?fs = "\<lparr>files = [''stylers.xml'' \<mapsto> XmlFile ?root, ''config.yaml'' \<mapsto> YamlFile example_config],
              writable = {''template.xml''}\<rparr>"
  have l: "load_styles_from_config ?fs ''config.yaml'' = Inr example_styles"
    by (simp add: load_styles_from_config_def example_config_def dict_get_def
      py_iter_def style_of_data_def as_names_def as_color_def Style_init_def truthy_def
      example_styles_def)
  have p: "parse_xml_file ?fs ''stylers.xml'' = Inr ?root"
    by (simp add: parse_xml_file_def)
  have m: "elem_find ?root ''LexerStyles'' = None \<or> elem_find ?root ''GlobalStyles'' = None"
    by (simp add: elem_find_def)
  have n: "elem_find ?root ''LexerStyles'' \<noteq> None"
    by (simp add: elem_find_def)
  from build_missing_section [OF l p m, of "''template.xml''"] n
  show ?thesis by auto
qed

text \<open>
  C4. In a build that loads its rules, finds both sections and can open its target, no
  leaf raises: the build ends normally and writes the target. Every visited leaf that no
  rule matches is, at the same position of the written document, the element it was in the
  source, with all its attributes.
\<close>

theorem build_keeps_unmatched_leaves:
  assumes "load_styles_from_config fs config = Inr styles"
    and "parse_xml_file fs source = Inr root"
    and "get_lexer_styles root = Inr ls"
    and "get_global_styles root = Inr gs"
    and "target \<in> writable fs"
  shows "\<exists>root'. create_or_update_template fs source target config
                    = (Inr (), fs\<lparr>files := (files fs)(target \<mapsto> XmlFile root')\<rparr>)
           \<and> length (style_leaves root') = length (style_leaves root)
           \<and> (\<forall>i < length (style_leaves root).
                 (\<forall>s \<in> set styles. \<not> rule_matches s (style_leaves root ! i)) \<longrightarrow>
                 style_leaves root' ! i = style_leaves root ! i)"
proof -
  from build_ok [OF assms] obtain root' where
    b: "create_or_update_template fs source target config
          = (Inr (), fs\<lparr>files := (files fs)(target \<mapsto> XmlFile root')\<rparr>)"
    and l: "style_leaves root' = map (apply_styles styles) (style_leaves root)"
    by blast
  have "\<forall>i < length (style_leaves root).
          (\<forall>s \<in> set styles. \<not> rule_matches s (style_leaves root ! i)) \<longrightarrow>
          style_leaves root' ! i = style_leaves root ! i"
    by (simp add: l apply_styles_unmatched)
  with b l show ?thesis by auto
qed

theorem build_keeps_unmatched_leaves_witness:
  "\<exists>root'. create_or_update_template example_fs ''stylers.xml'' ''template.xml'' ''config.yaml''
              = (Inr (), example_fs\<lparr>files := (files example_fs)(''template.xml'' \<mapsto> XmlFile root')\<rparr>)
     \<and> style_leaves example_source ! 1 = Element ''WordsStyle'' [(''name'', ''Default''), (''fgColor'', ''000000'')] []
     \<and> style_leaves root' ! 1 = Element ''WordsStyle'' [(''name'', ''Default''), (''fgColor'', ''000000'')] []"
proof -
  from build_keeps_unmatched_leaves
    [OF example_load example_parse example_lexer_styles example_global_styles example_target]
  obtain root' where
    b: "create_or_update_template example_fs ''stylers.xml'' ''template.xml'' ''config.yaml''
              = (Inr (), example_fs\<lparr>files := (files example_fs)(''template.xml'' \<mapsto> XmlFile root')\<rparr>)"
    and k: "\<forall>i < length (style_leaves example_source).
                 (\<forall>s \<in> set example_styles. \<not> rule_matches s (style_leaves example_source ! i)) \<longrightarrow>
                 style_leaves root' ! i = style_leaves example_source ! i"
    by blast
  have u: "\<forall>s \<in> set example_styles. \<not> rule_matches s (style_leaves example_source ! 1)"
    by (simp add: example_leaves example_styles_def rule_matches_def elem_get_def)
  have "1 < length (style_leaves example_source)"
    by (simp add: example_leaves)
  with k u have "style_leaves root' ! 1 = style_leaves example_source ! 1"
    by blast
  with b show ?thesis by (auto simp add: example_leaves)
qed

text \<open>
  C9. In a build that loads its rules, finds both sections and can open its target, every
  leaf goes through all rules in configuration order (\<open>apply_styles\<close>). Its final
  \<open>fgColor\<close> is the foreground colour of the last rule that matches the leaf and has a
  foreground colour, whatever earlier matching rules set; with no such rule it is the
  attribute of the source leaf. The same holds for \<open>bgColor\<close>.
\<close>

theorem build_last_matching_rule_wins:
  assumes "load_styles_from_config fs config = Inr styles"
    and "parse_xml_file fs source = Inr root"
    and "get_lexer_styles root = Inr ls"
    and "get_global_styles root = Inr gs"
    and "target \<in> writable fs"
  shows "\<exists>root'. create_or_update_template fs source target config
                    = (Inr (), fs\<lparr>files := (files fs)(target \<mapsto> XmlFile root')\<rparr>)
           \<and> style_leaves root' = map (apply_styles styles) (style_leaves root)
           \<and> (\<forall>i < length (style_leaves root).
                 elem_get (style_leaves root' ! i) ''fgColor'' =
                   (if filter (\<lambda>s. rule_matches s (style_leaves root ! i) \<and> fgColor s \<noteq> None) styles = []
                    then elem_get (style_leaves root ! i) ''fgColor''
                    else fgColor (last (filter
                           (\<lambda>s. rule_matches s (style_leaves root ! i) \<and> fgColor s \<noteq> None) styles)))
               \<and> elem_get (style_leaves root' ! i) ''bgColor'' =
                   (if filter (\<lambda>s. rule_matches s (style_leaves root ! i) \<and> bgColor s \<noteq> None) styles = []
                    then elem_get (style_leaves root ! i) ''bgColor''
                    else bgColor (last (filter
                           (\<lambda>s. rule_matches s (style_leaves root ! i) \<and> bgColor s \<noteq> None) styles))))"
proof -
  from build_ok [OF assms] obtain root' where
    b: "create_or_update_template fs source target config
          = (Inr (), fs\<lparr>files := (files fs)(target \<mapsto> XmlFile root')\<rparr>)"
    and l: "style_leaves root' = map (apply_styles styles) (style_leaves root)"
    by blast
  show ?thesis
    by (rule exI [of _ root']) (simp add: b l apply_styles_fg apply_styles_bg)
qed

theorem build_last_matching_rule_wins_witness:
  "\<exists>root'. create_or_update_template example_fs ''stylers.xml'' ''template.xml'' ''config.yaml''
              = (Inr (), example_fs\<lparr>files := (files example_fs)(''template.xml'' \<mapsto> XmlFile root')\<rparr>)
     \<and> elem_get (style_leaves root' ! 0) ''fgColor'' = Some ''$love''
     \<and> elem_get (style_leaves root' ! 0) ''bgColor'' = Some ''$surface''"
proof -
  from build_last_matching_rule_wins
    [OF example_load example_parse example_lexer_styles example_global_styles example_target]
  obtain root' where
    b: "create_or_update_template example_fs ''stylers.xml'' ''template.xml'' ''config.yaml''
              = (Inr (), example_fs\<lparr>files := (files example_fs)(''template.xml'' \<mapsto> XmlFile root')\<rparr>)"
    and k: "\<forall>i < length (style_leaves example_source).
                 elem_get (style_leaves root' ! i) ''fgColor'' =
                   (if filter (\<lambda>s. rule_matches s (style_leaves example_source ! i) \<and> fgColor s \<noteq> None) example_styles = []
                    then elem_get (style_leaves example_source ! i) ''fgColor''
                    else fgColor (last (filter
                           (\<lambda>s. rule_matches s (style_leaves example_source ! i) \<and> fgColor s \<noteq> None) example_styles)))
               \<and> elem_get (style_leaves root' ! i) ''bgColor'' =
                   (if filter (\<lambda>s. rule_matches s (style_leaves example_source ! i) \<and> bgColor s \<noteq> None) example_styles = []
                    then elem_get (style_leaves example_source ! i) ''bgColor''
                    else bgColor (last (filter
                           (\<lambda>s. rule_matches s (style_leaves example_source ! i) \<and> bgColor s \<noteq> None) example_styles)))"
    by blast
  have "0 < length (style_leaves example_source)"
    by (simp add: example_leaves)
  with k have "elem_get (style_leaves root' ! 0) ''fgColor'' = Some ''$love''
             \<and> elem_get (style_leaves root' ! 0) ''bgColor'' = Some ''$surface''"
    by (simp add: example_leaves example_styles_def rule_matches_def elem_get_def)
  with b show ?thesis by blast
qed

end
